theory Spec2Isabelle
  imports Complex_Main "HOL-Library.AList" "HOL-Library.Multiset" "HOL-Library.Sublist" "HOL-Library.Char_ord" "HOL-Library.List_Lexorder"
begin

section \<open>Values read by \<open>json.load\<close>\<close>

text \<open>
  \<open>tools/compile_benchmark_files.py\<close> works on the Python objects that \<open>json.load\<close>
  returns. They are modelled by the datatype \<open>json\<close>: \<open>None\<close> is \<open>JNull\<close>, a \<open>bool\<close> is
  \<open>JBool\<close>, an \<open>int\<close> is \<open>JInt\<close> (unbounded), a \<open>float\<close> is \<open>JFloat\<close>, a \<open>str\<close> is \<open>JStr\<close>,
  a \<open>list\<close> is \<open>JList\<close> and a \<open>dict\<close> is \<open>JObj\<close>, an association list in insertion order
  whose keys are the strings of the JSON text.

  A float is carried by its exact value, a rational number: Python compares and hashes
  \<open>int\<close>, \<open>bool\<close> and finite \<open>float\<close> values by their exact mathematical value. The
  non-standard constants \<open>NaN\<close>, \<open>Infinity\<close> and \<open>-Infinity\<close> that \<open>json.load\<close> also
  accepts, and the sign of a floating-point zero, are outside the model. A character of
  a \<open>string\<close> stands for one code point.
\<close>

datatype json =
    JNull
  | JBool bool
  | JInt int
  | JFloat rat
  | JStr string
  | JList "json list"
  | JObj "(string \<times> json) list"

text \<open>\<open>isinstance(x, dict)\<close> and \<open>isinstance(x, list)\<close>.\<close>

fun is_dict :: "json \<Rightarrow> bool" where
  "is_dict (JObj kvs) = True"
| "is_dict _ = False"

fun is_list :: "json \<Rightarrow> bool" where
  "is_list (JList xs) = True"
| "is_list _ = False"

text \<open>
  Truth value of an object, as in \<open>if data:\<close> and \<open>... and data['benchmarks']\<close>: \<open>None\<close>,
  \<open>False\<close>, zero and every empty container are false.
\<close>

fun truthy :: "json \<Rightarrow> bool" where
  "truthy JNull = False"
| "truthy (JBool b) = b"
| "truthy (JInt i) = (i \<noteq> 0)"
| "truthy (JFloat r) = (r \<noteq> 0)"
| "truthy (JStr s) = (s \<noteq> [])"
| "truthy (JList xs) = (xs \<noteq> [])"
| "truthy (JObj kvs) = (kvs \<noteq> [])"

text \<open>
  \<open>k in d\<close> and \<open>d[k]\<close> for a string key. The source evaluates them on a dict only, and
  \<open>d[k]\<close> only behind \<open>k in d\<close>; outside of that \<open>contains\<close> is false and \<open>item\<close> is
  \<open>JNull\<close>, values no caller reads.
\<close>

fun contains :: "string \<Rightarrow> json \<Rightarrow> bool" where
  "contains k (JObj kvs) = (map_of kvs k \<noteq> None)"
| "contains k _ = False"

fun item :: "json \<Rightarrow> string \<Rightarrow> json" where
  "item (JObj kvs) k = (case map_of kvs k of Some v \<Rightarrow> v | None \<Rightarrow> JNull)"
| "item _ k = JNull"

text \<open>\<open>xs[0]\<close>, evaluated by the source on non-empty lists only.\<close>

fun first_of :: "json \<Rightarrow> json" where
  "first_of (JList (x # xs)) = x"
| "first_of _ = JNull"

section \<open>Equality, order and serialisation of Python values\<close>

text \<open>
  The numeric value of a \<open>bool\<close>, an \<open>int\<close> or a \<open>float\<close>; \<open>bool\<close> is a subclass of \<open>int\<close>
  (\<open>True == 1\<close>).
\<close>

fun num_val :: "json \<Rightarrow> rat option" where
  "num_val (JBool b) = Some (if b then 1 else 0)"
| "num_val (JInt i) = Some (of_int i)"
| "num_val (JFloat r) = Some r"
| "num_val _ = None"

lemma size_map_of:
  "map_of b k = Some w \<Longrightarrow> size w < Suc (size_list (size_prod (\<lambda>x. 0) size) b)"
  by (induction b) (auto split: if_splits)

lemma size_in_set:
  "x \<in> set xs \<Longrightarrow> size x < Suc (size_list size xs)"
  by (induction xs) auto

lemma size_in_obj:
  "(k, v) \<in> set a \<Longrightarrow> size v < Suc (size_list (size_prod (\<lambda>x. 0) size) a)"
  by (induction a) auto

text \<open>
  Python's \<open>==\<close>: numbers by value, strings and \<open>None\<close> by identity of value, lists
  element by element, dicts as mappings (the same keys with equal values, whatever the
  order of insertion); values of different kinds are unequal.
\<close>

function py_eq :: "json \<Rightarrow> json \<Rightarrow> bool" where
  "py_eq (JList xs) y = (case y of JList ys \<Rightarrow> list_all2 py_eq xs ys | _ \<Rightarrow> False)"
| "py_eq (JObj a) y = (case y of
       JObj b \<Rightarrow>
         list_all (\<lambda>(k, v). case map_of b k of None \<Rightarrow> False | Some w \<Rightarrow> py_eq v w) a \<and>
         list_all (\<lambda>(k, w). case map_of a k of None \<Rightarrow> False | Some v \<Rightarrow> py_eq v w) b
     | _ \<Rightarrow> False)"
| "py_eq JNull y = (y = JNull)"
| "py_eq (JStr s) y = (y = JStr s)"
| "py_eq (JBool b) y = (num_val y = Some (if b then 1 else 0))"
| "py_eq (JInt i) y = (num_val y = Some (of_int i))"
| "py_eq (JFloat r) y = (num_val y = Some r)"
  by pat_completeness auto
termination
proof (relation "measure (\<lambda>(x, y). size x + size y)", goal_cases)
  case 1
  show ?case by simp
next
  case (2 xs y ys x z)
  then show ?case
    using size_in_set[of x xs] size_in_set[of z ys] by simp
next
  case (3 a y b kv k v w)
  then show ?case
    using size_in_obj[of k v a] size_map_of[of b k w] by simp
next
  case (4 a y b kv k w v)
  then show ?case
    using size_in_obj[of k w b] size_map_of[of a k v] by simp
qed

text \<open>
  Python's \<open><\<close>, \<open>None\<close> for the \<open>TypeError\<close> of an unsupported comparison. Numbers are
  ordered by value, strings by code points, lists lexicographically: the first pair of
  elements that are not \<open>==\<close> decides, by \<open><\<close>, and a proper prefix is smaller. \<open>None\<close>
  and dicts support no order, and neither do values of different kinds.
\<close>

fun py_lt :: "json \<Rightarrow> json \<Rightarrow> bool option"
  and lt_list :: "json list \<Rightarrow> json list \<Rightarrow> bool option" where
  "py_lt (JList xs) y = (case y of JList ys \<Rightarrow> lt_list xs ys | _ \<Rightarrow> None)"
| "py_lt (JStr s) y = (case y of JStr t \<Rightarrow> Some (s < t) | _ \<Rightarrow> None)"
| "py_lt (JBool b) y = map_option (\<lambda>r. (if b then 1 else 0) < r) (num_val y)"
| "py_lt (JInt i) y = map_option (\<lambda>r. of_int i < r) (num_val y)"
| "py_lt (JFloat q) y = map_option (\<lambda>r. q < r) (num_val y)"
| "py_lt JNull y = None"
| "py_lt (JObj a) y = None"
| "lt_list [] [] = Some False"
| "lt_list [] (y # ys) = Some True"
| "lt_list (x # xs) [] = Some False"
| "lt_list (x # xs) (y # ys) = (if py_eq x y then lt_list xs ys else py_lt x y)"

datatype pyerror =
    TypeError
  | ValueError
  | AttributeError
  | SystemExit string

text \<open>
  \<open>sorted(xs)\<close>. The builtin is a stable comparison sort by \<open><\<close>; it is modelled by a
  stable insertion sort, and it raises the \<open>TypeError\<close> of a comparison exactly when two
  elements of the list do not support \<open><\<close>: a sort cannot finish without having compared
  such a pair, directly or through elements that are equal to them.
\<close>

definition comparable :: "json \<Rightarrow> json \<Rightarrow> bool" where
  "comparable x y = (py_lt x y \<noteq> None \<and> py_lt y x \<noteq> None)"

fun all_comparable :: "json list \<Rightarrow> bool" where
  "all_comparable [] = True"
| "all_comparable (x # xs) = (list_all (comparable x) xs \<and> all_comparable xs)"

fun insort_lt :: "json \<Rightarrow> json list \<Rightarrow> json list" where
  "insort_lt x [] = [x]"
| "insort_lt x (y # ys) = (if py_lt y x = Some True then y # insort_lt x ys else x # y # ys)"

definition sort_lt :: "json list \<Rightarrow> json list" where
  "sort_lt xs = foldr insort_lt xs []"

definition py_sorted :: "json list \<Rightarrow> pyerror + json list" where
  "py_sorted xs = (if all_comparable xs then Inr (sort_lt xs) else Inl TypeError)"

text \<open>
  \<open>json.dumps(x, sort_keys=True)\<close> with the default separators and \<open>ensure_ascii\<close>. The
  text of a float is \<open>float.__repr__\<close>, a function \<open>fr\<close> that the model takes as a
  parameter.
\<close>

definition hex_digit :: "nat \<Rightarrow> char" where
  "hex_digit n = ''0123456789abcdef'' ! n"

definition escape_char :: "char \<Rightarrow> string" where
  "escape_char c =
     (let n = (of_char c :: nat) in
      if n = 0x22 then [CHR 0x5C, CHR 0x22]
      else if n = 0x5C then [CHR 0x5C, CHR 0x5C]
      else if n = 0x0A then [CHR 0x5C, CHR ''n'']
      else if n = 0x0D then [CHR 0x5C, CHR ''r'']
      else if n = 0x09 then [CHR 0x5C, CHR ''t'']
      else if n = 0x08 then [CHR 0x5C, CHR ''b'']
      else if n = 0x0C then [CHR 0x5C, CHR ''f'']
      else if 0x20 \<le> n \<and> n \<le> 0x7E then [c]
      else [CHR 0x5C, CHR ''u'', CHR ''0'', CHR ''0'', hex_digit (n div 16), hex_digit (n mod 16)])"

definition quote :: "string \<Rightarrow> string" where
  "quote s = [CHR 0x22] @ concat (map escape_char s) @ [CHR 0x22]"

fun str_nat :: "nat \<Rightarrow> string" where
  "str_nat n = (if n < 10 then [hex_digit n] else str_nat (n div 10) @ [hex_digit (n mod 10)])"

definition str_int :: "int \<Rightarrow> string" where
  "str_int i = (if i < 0 then ''-'' @ str_nat (nat (- i)) else str_nat (nat i))"

fun join :: "string \<Rightarrow> string list \<Rightarrow> string" where
  "join sep [] = []"
| "join sep [x] = x"
| "join sep (x # y # ys) = x @ sep @ join sep (y # ys)"

fun dumps :: "(rat \<Rightarrow> string) \<Rightarrow> json \<Rightarrow> string" where
  "dumps fr JNull = ''null''"
| "dumps fr (JBool b) = (if b then ''true'' else ''false'')"
| "dumps fr (JInt i) = str_int i"
| "dumps fr (JFloat r) = fr r"
| "dumps fr (JStr s) = quote s"
| "dumps fr (JList xs) = ''['' @ join '', '' (map (dumps fr) xs) @ '']''"
| "dumps fr (JObj kvs) =
     ''{'' @ join '', '' (map (\<lambda>(k, e). quote k @ '': '' @ e)
                          (sort_key fst (map (\<lambda>(k, v). (k, dumps fr v)) kvs))) @ ''}''"

section \<open>The deduplicator: \<open>uniq\<close>\<close>

text \<open>
  Lines 95 to 107. The members of \<open>seen\<close> are numbers and strings; two of them are the
  same member when they are \<open>==\<close>, so a number is a \<open>KNum\<close> of its value and a string a
  \<open>KStr\<close>. \<open>isinstance(x, (float, int, str))\<close> holds for a \<open>bool\<close> as well.
\<close>

datatype ukey = KNum rat | KStr string

fun isinstance_float_int_str :: "json \<Rightarrow> bool" where
  "isinstance_float_int_str (JBool b) = True"
| "isinstance_float_int_str (JInt i) = True"
| "isinstance_float_int_str (JFloat r) = True"
| "isinstance_float_int_str (JStr s) = True"
| "isinstance_float_int_str _ = False"

fun as_key :: "json \<Rightarrow> ukey" where
  "as_key (JBool b) = KNum (if b then 1 else 0)"
| "as_key (JInt i) = KNum (of_int i)"
| "as_key (JFloat r) = KNum r"
| "as_key (JStr s) = KStr s"
| "as_key _ = KStr []"

definition uniq_key :: "(rat \<Rightarrow> string) \<Rightarrow> json \<Rightarrow> ukey" where
  "uniq_key fr x = (if isinstance_float_int_str x then as_key x else KStr (dumps fr x))"

fun uniq_loop :: "(rat \<Rightarrow> string) \<Rightarrow> ukey set \<Rightarrow> json list \<Rightarrow> json list \<Rightarrow> json list" where
  "uniq_loop fr seen out [] = out"
| "uniq_loop fr seen out (x # seq) =
     (let key = uniq_key fr x in
      if key \<in> seen then uniq_loop fr seen out seq
      else uniq_loop fr (insert key seen) (out @ [x]) seq)"

definition uniq :: "(rat \<Rightarrow> string) \<Rightarrow> json list \<Rightarrow> json list" where
  "uniq fr seq = uniq_loop fr {} [] seq"

section \<open>The record extractor: \<open>load_first_benchmark\<close>\<close>

text \<open>
  The content of a file, as \<open>open\<close> and \<open>json.load\<close> see it: \<open>None\<close> when the file cannot
  be opened or is not JSON (any exception of the \<open>try\<close> block), the parsed value otherwise.
\<close>

type_synonym file_content = "json option"

text \<open>
  Lines 34 to 40: the decision on the parsed value \<open>data\<close>. Python's \<open>None\<close> is
  \<open>JNull\<close>, so the function returns a \<open>json\<close>; \<open>data['benchmarks'][0]\<close> and \<open>data[0]\<close> are
  only evaluated on non-empty lists, where they do not raise.
\<close>

definition extract_record :: "json \<Rightarrow> json" where
  "extract_record data =
     (if is_dict data \<and> contains ''benchmarks'' data \<and> is_list (item data ''benchmarks'')
         \<and> truthy (item data ''benchmarks'')
      then first_of (item data ''benchmarks'')
      else if is_dict data \<and> contains ''type_'' data
      then data
      else if is_list data \<and> truthy data
      then first_of data
      else JNull)"

text \<open>
  Lines 26 to 40: a file that cannot be read or parsed prints a warning and gives \<open>None\<close>.
  The printed lines are values of \<open>diag\<close>.
\<close>

datatype diag =
    ParseWarning string
  | SkipNoBenchmark string
  | WroteFile string

definition load_first_benchmark :: "string \<Rightarrow> file_content \<Rightarrow> diag list \<times> json" where
  "load_first_benchmark path content =
     (case content of
        None \<Rightarrow> ([ParseWarning path], JNull)
      | Some data \<Rightarrow> ([], extract_record data))"

section \<open>Benchmark records\<close>

text \<open>
  A stored benchmark is the dict that \<open>dict(b)\<close> builds (line 51). Its keys are the
  strings of a JSON object when \<open>b\<close> is one; \<open>dict\<close> also accepts a sequence of pairs,
  and then a key is any hashable value. So a record is an association list, in insertion
  order, from keys to values; two keys are the same key when they are \<open>==\<close>.
\<close>

type_synonym pydict = "(json \<times> json) list"

fun hashable :: "json \<Rightarrow> bool" where
  "hashable (JList xs) = False"
| "hashable (JObj kvs) = False"
| "hashable _ = True"

text \<open>
  \<open>d[k] = v\<close>: an existing key keeps its place and its key object. The functions on
  dicts leave the type of the stored values open; in a record they are \<open>json\<close> values.
\<close>

fun dict_set :: "(json \<times> 'v) list \<Rightarrow> json \<Rightarrow> 'v \<Rightarrow> (json \<times> 'v) list" where
  "dict_set [] k v = [(k, v)]"
| "dict_set ((k', v') # d) k v =
     (if py_eq k' k then (k', v) # d else (k', v') # dict_set d k v)"

text \<open>\<open>d.get(k, default)\<close> on a record.\<close>

fun dict_get :: "(json \<times> 'v) list \<Rightarrow> json \<Rightarrow> 'v \<Rightarrow> 'v" where
  "dict_get [] k dflt = dflt"
| "dict_get ((k', v') # d) k dflt = (if py_eq k' k then v' else dict_get d k dflt)"

fun dict_has :: "(json \<times> 'v) list \<Rightarrow> json \<Rightarrow> bool" where
  "dict_has [] k = False"
| "dict_has ((k', v') # d) k = (py_eq k' k \<or> dict_has d k)"

text \<open>
  \<open>dict(b)\<close>. A dict is copied. Any other iterable is read as a sequence of pairs: each
  element must itself be a sequence of length two (a list of two values, a string of two
  characters, or a dict of two keys, which iterates over its keys), else \<open>TypeError\<close> (not
  a sequence) or \<open>ValueError\<close> (wrong length); an unhashable key is a \<open>TypeError\<close>. A string
  iterates over its characters, strings of length one. Numbers, booleans and \<open>None\<close> are
  not iterable.
\<close>

fun seq_item :: "json \<Rightarrow> pyerror + (json \<times> json)" where
  "seq_item (JList [k, v]) = (if hashable k then Inr (k, v) else Inl TypeError)"
| "seq_item (JList xs) = Inl ValueError"
| "seq_item (JStr [a, b]) = Inr (JStr [a], JStr [b])"
| "seq_item (JStr s) = Inl ValueError"
| "seq_item (JObj [(k1, v1), (k2, v2)]) = Inr (JStr k1, JStr k2)"
| "seq_item (JObj kvs) = Inl ValueError"
| "seq_item _ = Inl TypeError"

fun dict_from_seq :: "pydict \<Rightarrow> json list \<Rightarrow> pyerror + pydict" where
  "dict_from_seq d [] = Inr d"
| "dict_from_seq d (x # xs) =
     (case seq_item x of
        Inl e \<Rightarrow> Inl e
      | Inr (k, v) \<Rightarrow> dict_from_seq (dict_set d k v) xs)"

fun dict_ctor :: "json \<Rightarrow> pyerror + pydict" where
  "dict_ctor (JObj kvs) = Inr (map (\<lambda>(k, v). (JStr k, v)) kvs)"
| "dict_ctor (JList xs) = dict_from_seq [] xs"
| "dict_ctor (JStr s) = (if s = [] then Inr [] else Inl ValueError)"
| "dict_ctor _ = Inl TypeError"

text \<open>\<open>os.path.basename(p)\<close> and \<open>p.rstrip('/')\<close>.\<close>

definition basename :: "string \<Rightarrow> string" where
  "basename p = rev (takeWhile (\<lambda>c. c \<noteq> CHR ''/'') (rev p))"

definition rstrip_slash :: "string \<Rightarrow> string" where
  "rstrip_slash p = rev (dropWhile (\<lambda>c. c = CHR ''/'') (rev p))"

section \<open>The profile aggregator\<close>

text \<open>
  \<open>x.get(k, default)\<close> on a value inside a record: only a dict has the method, anything
  else raises \<open>AttributeError\<close>.
\<close>

fun attr_get :: "json \<Rightarrow> string \<Rightarrow> json \<Rightarrow> pyerror + json" where
  "attr_get (JObj kvs) k dflt = Inr (case map_of kvs k of Some v \<Rightarrow> v | None \<Rightarrow> dflt)"
| "attr_get _ k dflt = Inl AttributeError"

text \<open>The four running lists of lines 59 to 62.\<close>

record sweep =
  measured_rates :: "json list"
  measured_concurrencies :: "json list"
  streams :: "json list"
  strategy_types :: "json list"

text \<open>
  \<open>if isinstance(v, list): acc.extend(v) elif v is not None: acc.append(v)\<close>, the step
  that lines 69 to 92 repeat for each field.
\<close>

fun elems :: "json \<Rightarrow> json list" where
  "elems (JList xs) = xs"
| "elems _ = []"

definition extend_or_append :: "json list \<Rightarrow> json \<Rightarrow> json list" where
  "extend_or_append acc v =
     (if is_list v then acc @ elems v
      else if v \<noteq> JNull then acc @ [v]
      else acc)"

text \<open>Lines 65 to 92: the body of the loop, for one stored benchmark \<open>b\<close>.\<close>

definition collect_one :: "sweep \<Rightarrow> pydict \<Rightarrow> pyerror + sweep" where
  "collect_one acc b =
     (let b_args = dict_get b (JStr ''args'') (JObj []) in
      case attr_get b_args ''profile'' (JObj []) of Inl e \<Rightarrow> Inl e | Inr b_profile \<Rightarrow>
      case attr_get b_profile ''measured_rates'' JNull of Inl e \<Rightarrow> Inl e | Inr mr \<Rightarrow>
      case attr_get b_profile ''measured_concurrencies'' JNull of Inl e \<Rightarrow> Inl e | Inr mc \<Rightarrow>
      case attr_get b_profile ''streams'' JNull of Inl e \<Rightarrow> Inl e | Inr s0 \<Rightarrow>
      case (if s0 = JNull
            then (case attr_get b_args ''strategy'' (JObj []) of
                    Inl e \<Rightarrow> Inl e
                  | Inr strategy \<Rightarrow> attr_get strategy ''streams'' JNull)
            else Inr s0) of Inl e \<Rightarrow> Inl e | Inr s \<Rightarrow>
      case attr_get b_profile ''strategy_types'' JNull of Inl e \<Rightarrow> Inl e | Inr st \<Rightarrow>
      Inr \<lparr> measured_rates = extend_or_append (measured_rates acc) mr,
            measured_concurrencies = extend_or_append (measured_concurrencies acc) mc,
            streams = extend_or_append (streams acc) s,
            strategy_types = extend_or_append (strategy_types acc) st \<rparr>)"

fun collect :: "sweep \<Rightarrow> pydict list \<Rightarrow> pyerror + sweep" where
  "collect acc [] = Inr acc"
| "collect acc (b # bs) =
     (case collect_one acc b of Inl e \<Rightarrow> Inl e | Inr acc' \<Rightarrow> collect acc' bs)"

definition empty_sweep :: sweep where
  "empty_sweep = \<lparr> measured_rates = [], measured_concurrencies = [], streams = [],
                   strategy_types = [] \<rparr>"

text \<open>
  Lines 109 to 128: the combined profile, a dict built key by key. \<open>sorted\<close> is tried on
  the deduplicated streams and every exception falls back to the unsorted list.
\<close>

definition sorted_or_same :: "json list \<Rightarrow> json list" where
  "sorted_or_same xs = (case py_sorted xs of Inr ys \<Rightarrow> ys | Inl e \<Rightarrow> xs)"

definition combined_profile :: "(rat \<Rightarrow> string) \<Rightarrow> nat \<Rightarrow> sweep \<Rightarrow> (string \<times> json) list" where
  "combined_profile fr n sw =
     (let measured_rates_u = uniq fr (measured_rates sw);
          measured_concurrencies_u = uniq fr (measured_concurrencies sw);
          streams_u = uniq fr (streams sw);
          strategy_types_u = uniq fr (strategy_types sw)
      in [(''type_'', JStr ''concurrent''), (''completed_strategies'', JInt (int n))]
         @ (if measured_rates_u \<noteq> [] then [(''measured_rates'', JList measured_rates_u)] else [])
         @ (if measured_concurrencies_u \<noteq> []
            then [(''measured_concurrencies'', JList measured_concurrencies_u)] else [])
         @ (if streams_u \<noteq> [] then [(''streams'', JList (sorted_or_same streams_u))] else [])
         @ (if strategy_types_u \<noteq> [] then [(''strategy_types'', JList strategy_types_u)] else []))"

text \<open>
  Lines 58 to 128 as one function, the aggregator: the running lists of all stored
  benchmarks, then the combined profile; \<open>completed_strategies\<close> is \<open>len(benchmarks)\<close>.
\<close>

definition aggregate :: "(rat \<Rightarrow> string) \<Rightarrow> pydict list \<Rightarrow> pyerror + (string \<times> json) list" where
  "aggregate fr bs =
     (case collect empty_sweep bs of
        Inl e \<Rightarrow> Inl e
      | Inr sw \<Rightarrow> Inr (combined_profile fr (length bs) sw))"

section \<open>The merge orchestrator: \<open>merge_benchmark_files\<close> and \<open>main\<close>\<close>

text \<open>
  Lines 46 to 53. The directory is given by its listing: the paths of the regular files
  that \<open>glob\<close> matches, each with the content of the file. A file whose record is \<open>None\<close>
  is skipped with a printed line; \<open>dict(b)\<close> is not guarded, so its exception leaves the
  function.
\<close>

fun load_files ::
  "(string \<times> file_content) list \<Rightarrow> diag list \<Rightarrow> pydict list \<Rightarrow> diag list \<times> (pyerror + pydict list)"
where
  "load_files [] out benchmarks = (out, Inr benchmarks)"
| "load_files ((fp, content) # files) out benchmarks =
     (let (warn, b) = load_first_benchmark fp content in
      if b = JNull then load_files files (out @ warn @ [SkipNoBenchmark fp]) benchmarks
      else (case dict_ctor b of
              Inl e \<Rightarrow> (out @ warn, Inl e)
            | Inr d \<Rightarrow>
                load_files files (out @ warn)
                  (benchmarks @ [dict_set d (JStr ''__source_file'') (JStr (basename fp))])))"

text \<open>
  Lines 132 to 139, for one stored benchmark. \<open>setdefault\<close> returns the value stored under
  \<open>args\<close>, or stores and returns a new empty dict. The assignment
  \<open>b_args['profile'] = dict(combined_profile)\<close> changes that dict in place, so the copy
  reads the changed dict under \<open>args\<close>; an object that is not a dict has no item
  assignment for a string key (\<open>TypeError\<close>).
\<close>

definition setdefault :: "pydict \<Rightarrow> json \<Rightarrow> json \<Rightarrow> pydict \<times> json" where
  "setdefault d k dflt =
     (if dict_has d k then (d, dict_get d k JNull) else (d @ [(k, dflt)], dflt))"

fun set_item :: "json \<Rightarrow> string \<Rightarrow> json \<Rightarrow> pyerror + json" where
  "set_item (JObj kvs) k v = Inr (JObj (AList.update k v kvs))"
| "set_item _ k v = Inl TypeError"

definition attach_profile :: "(string \<times> json) list \<Rightarrow> string \<Rightarrow> pydict \<Rightarrow> pyerror + pydict" where
  "attach_profile cp input_dir b =
     (let (b_copy, b_args) = setdefault b (JStr ''args'') (JObj []) in
      case set_item b_args ''profile'' (JObj cp) of
        Inl e \<Rightarrow> Inl e
      | Inr b_args' \<Rightarrow>
          Inr (dict_set (dict_set b_copy (JStr ''args'') b_args')
                 (JStr ''__combined_from'') (JStr (basename (rstrip_slash input_dir)))))"

fun attach_all :: "(string \<times> json) list \<Rightarrow> string \<Rightarrow> pydict list \<Rightarrow> pyerror + pydict list" where
  "attach_all cp input_dir [] = Inr []"
| "attach_all cp input_dir (b # bs) =
     (case attach_profile cp input_dir b of
        Inl e \<Rightarrow> Inl e
      | Inr b' \<Rightarrow> (case attach_all cp input_dir bs of Inl e \<Rightarrow> Inl e | Inr bs' \<Rightarrow> Inr (b' # bs')))"

text \<open>The returned document \<open>{'benchmarks': out_benchmarks}\<close>.\<close>

record document =
  benchmarks :: "pydict list"

text \<open>
  Lines 43 to 141. \<open>listing\<close> is what \<open>glob\<close> and \<open>os.path.isfile\<close> leave of the
  directory; \<open>sorted\<close> orders it by path.
\<close>

definition merge_benchmark_files ::
  "(rat \<Rightarrow> string) \<Rightarrow> string \<Rightarrow> (string \<times> file_content) list \<Rightarrow> diag list \<times> (pyerror + document)"
where
  "merge_benchmark_files fr input_dir listing =
     (let files = sort_key fst listing in
      case load_files files [] [] of
        (out, Inl e) \<Rightarrow> (out, Inl e)
      | (out, Inr bs) \<Rightarrow>
          if bs = [] then (out, Inl (SystemExit (''No benchmark entries found in '' @ input_dir)))
          else (case aggregate fr bs of
                  Inl e \<Rightarrow> (out, Inl e)
                | Inr cp \<Rightarrow>
                    (case attach_all cp input_dir bs of
                       Inl e \<Rightarrow> (out, Inl e)
                     | Inr out_benchmarks \<Rightarrow> (out, Inr \<lparr> benchmarks = out_benchmarks \<rparr>))))"

text \<open>
  Lines 144 to 163. The command line gives \<open>input_dir\<close> and \<open>output\<close>; \<open>is_dir\<close> is the
  answer of \<open>os.path.isdir\<close>. The result of a run is how it ended, what it printed and
  the file it wrote, if any; creating the output directory and writing the file are taken
  to succeed.
\<close>

datatype ending = Returned | Raised pyerror

record run =
  ending :: ending
  printed :: "diag list"
  written :: "(string \<times> document) option"

definition main ::
  "(rat \<Rightarrow> string) \<Rightarrow> bool \<Rightarrow> (string \<times> file_content) list \<Rightarrow> string \<Rightarrow> string \<Rightarrow> run" where
  "main fr is_dir listing input_dir output =
     (if \<not> is_dir
      then \<lparr> ending = Raised (SystemExit (''Input directory not found: '' @ input_dir)),
             printed = [], written = None \<rparr>
      else (case merge_benchmark_files fr input_dir listing of
              (out, Inl e) \<Rightarrow> \<lparr> ending = Raised e, printed = out, written = None \<rparr>
            | (out, Inr combined) \<Rightarrow>
                \<lparr> ending = Returned, printed = out @ [WroteFile output],
                  written = Some (output, combined) \<rparr>))"

section \<open>Notions of the specification\<close>

text \<open>
  A file yields a record when \<open>load_first_benchmark\<close> returns something other than
  \<open>None\<close>: these are the files that line 48 does not skip.
\<close>

definition yields_record :: "string \<times> file_content \<Rightarrow> bool" where
  "yields_record f = (snd (load_first_benchmark (fst f) (snd f)) \<noteq> JNull)"

text \<open>\<open>args.profile\<close> of a record, \<open>JNull\<close> where the path does not exist.\<close>

definition record_profile :: "pydict \<Rightarrow> json" where
  "record_profile r = item (dict_get r (JStr ''args'') JNull) ''profile''"

text \<open>
  The combined profile that a run over \<open>listing\<close> synthesizes (lines 58 to 128), if the
  run gets that far.
\<close>

definition synthesized_profile ::
  "(rat \<Rightarrow> string) \<Rightarrow> (string \<times> file_content) list \<Rightarrow> (string \<times> json) list option" where
  "synthesized_profile fr listing =
     (case load_files (sort_key fst listing) [] [] of
        (out, Inr bs) \<Rightarrow> (case aggregate fr bs of Inr cp \<Rightarrow> Some cp | Inl e \<Rightarrow> None)
      | (out, Inl e) \<Rightarrow> None)"

text \<open>
  The exit status of the process: an uncaught exception, \<open>SystemExit\<close> with a message
  included, ends it with status 1.
\<close>

definition exit_status :: "ending \<Rightarrow> nat" where
  "exit_status e = (case e of Returned \<Rightarrow> 0 | Raised x \<Rightarrow> 1)"

text \<open>Concrete inputs for the examples below; \<open>no_repr\<close> prints no float.\<close>

definition no_repr :: "rat \<Rightarrow> string" where
  "no_repr r = []"

definition example_listing :: "(string \<times> file_content) list" where
  "example_listing =
     [(''d/b.json'', Some (JObj [(''type_'', JStr ''y'')])),
      (''d/a.json'', Some (JList []))]"

definition example_document :: document where
  "example_document =
     \<lparr> benchmarks =
         [[(JStr ''type_'', JStr ''y''), (JStr ''__source_file'', JStr ''b.json''),
           (JStr ''args'',
            JObj [(''profile'',
                   JObj [(''type_'', JStr ''concurrent''), (''completed_strategies'', JInt 1)])]),
           (JStr ''__combined_from'', JStr ''d'')]] \<rparr>"

definition scenario_b_listing :: "(string \<times> file_content) list" where
  "scenario_b_listing = [(''d/one.json'', Some (JList [])), (''d/two.json'', Some (JObj []))]"

text \<open>
  Scenario A of the specification: \<open>a.json\<close> wraps its record in a \<open>benchmarks\<close> list,
  \<open>b.json\<close> is a record itself.
\<close>

definition scenario_a_listing :: "(string \<times> file_content) list" where
  "scenario_a_listing =
     [(''d/b.json'',
       Some (JObj [(''type_'', JStr ''y''),
                   (''args'', JObj [(''profile'',
                      JObj [(''measured_rates'', JList [JInt 2, JInt 3])])])])),
      (''d/a.json'',
       Some (JObj [(''benchmarks'',
                    JList [JObj [(''type_'', JStr ''x''),
                                 (''args'', JObj [(''profile'',
                                    JObj [(''measured_rates'', JList [JInt 1, JInt 2])])])]])]))]"

definition scenario_a_profile :: "(string \<times> json) list" where
  "scenario_a_profile =
     [(''type_'', JStr ''concurrent''), (''completed_strategies'', JInt 2),
      (''measured_rates'', JList [JInt 1, JInt 2, JInt 3])]"

definition scenario_a_document :: document where
  "scenario_a_document =
     \<lparr> benchmarks =
         [[(JStr ''type_'', JStr ''x''),
           (JStr ''args'', JObj [(''profile'', JObj scenario_a_profile)]),
           (JStr ''__source_file'', JStr ''a.json''),
           (JStr ''__combined_from'', JStr ''d'')],
          [(JStr ''type_'', JStr ''y''),
           (JStr ''args'', JObj [(''profile'', JObj scenario_a_profile)]),
           (JStr ''__source_file'', JStr ''b.json''),
           (JStr ''__combined_from'', JStr ''d'')]] \<rparr>"

text \<open>
  A directory whose first file holds \<open>[5]\<close>: a non-empty list, whose first element is
  not a dict.
\<close>

definition non_dict_listing :: "(string \<times> file_content) list" where
  "non_dict_listing =
     [(''d/a.json'', Some (JList [JInt 5])),
      (''d/b.json'', Some (JObj [(''type_'', JStr ''y'')]))]"

text \<open>
  Reading a field of a record by the path \<open>record.args.profile.f\<close> or
  \<open>record.args.strategy.f\<close>: \<open>None\<close> when a key of the path is absent or a value on the
  path is not a mapping.
\<close>

fun entry :: "json \<Rightarrow> string \<Rightarrow> json option" where
  "entry (JObj kvs) k = map_of kvs k"
| "entry _ k = None"

definition profile_entry :: "pydict \<Rightarrow> string \<Rightarrow> json option" where
  "profile_entry r f =
     (case map_of r (JStr ''args'') of
        None \<Rightarrow> None
      | Some a \<Rightarrow> (case entry a ''profile'' of None \<Rightarrow> None | Some p \<Rightarrow> entry p f))"

definition strategy_entry :: "pydict \<Rightarrow> string \<Rightarrow> json option" where
  "strategy_entry r f =
     (case map_of r (JStr ''args'') of
        None \<Rightarrow> None
      | Some a \<Rightarrow> (case entry a ''strategy'' of None \<Rightarrow> None | Some s \<Rightarrow> entry s f))"

text \<open>
  The running lists as C1 words them: a list contributes its elements, any other present
  value contributes itself, an absent field contributes nothing; \<open>streams\<close> falls back to
  \<open>args.strategy.streams\<close> when \<open>profile.streams\<close> is absent.
\<close>

fun claimed_contribution :: "json option \<Rightarrow> json list" where
  "claimed_contribution None = []"
| "claimed_contribution (Some (JList xs)) = xs"
| "claimed_contribution (Some v) = [v]"

definition claimed_value :: "string \<Rightarrow> pydict \<Rightarrow> json option" where
  "claimed_value f r =
     (if f = ''streams'' \<and> profile_entry r f = None then strategy_entry r ''streams''
      else profile_entry r f)"

definition claimed_list :: "string \<Rightarrow> pydict list \<Rightarrow> json list" where
  "claimed_list f rs = concat (map (\<lambda>r. claimed_contribution (claimed_value f r)) rs)"

definition claimed_sweep :: "pydict list \<Rightarrow> sweep" where
  "claimed_sweep rs =
     \<lparr> measured_rates = claimed_list ''measured_rates'' rs,
       measured_concurrencies = claimed_list ''measured_concurrencies'' rs,
       streams = claimed_list ''streams'' rs,
       strategy_types = claimed_list ''strategy_types'' rs \<rparr>"

text \<open>
  The running lists with \<open>null\<close> read as the code reads it: a field that is absent or
  \<open>null\<close> contributes nothing, and \<open>streams\<close> falls back to \<open>args.strategy.streams\<close> when
  \<open>profile.streams\<close> is absent or \<open>null\<close>.
\<close>

fun contribution :: "json option \<Rightarrow> json list" where
  "contribution None = []"
| "contribution (Some JNull) = []"
| "contribution (Some (JList xs)) = xs"
| "contribution (Some v) = [v]"

definition absent_or_null :: "json option \<Rightarrow> bool" where
  "absent_or_null v = (v = None \<or> v = Some JNull)"

definition field_value :: "string \<Rightarrow> pydict \<Rightarrow> json option" where
  "field_value f r =
     (if f = ''streams'' \<and> absent_or_null (profile_entry r f) then strategy_entry r ''streams''
      else profile_entry r f)"

definition running_list :: "string \<Rightarrow> pydict list \<Rightarrow> json list" where
  "running_list f rs = concat (map (\<lambda>r. contribution (field_value f r)) rs)"

definition running_sweep :: "pydict list \<Rightarrow> sweep" where
  "running_sweep rs =
     \<lparr> measured_rates = running_list ''measured_rates'' rs,
       measured_concurrencies = running_list ''measured_concurrencies'' rs,
       streams = running_list ''streams'' rs,
       strategy_types = running_list ''strategy_types'' rs \<rparr>"

text \<open>
  The records on which the aggregator does not raise: \<open>args\<close>, \<open>args.profile\<close> and, where
  the fallback reads it, \<open>args.strategy\<close> are mappings or absent.
\<close>

definition dict_or_absent :: "json option \<Rightarrow> bool" where
  "dict_or_absent v = (case v of None \<Rightarrow> True | Some x \<Rightarrow> is_dict x)"

definition well_shaped :: "pydict \<Rightarrow> bool" where
  "well_shaped r =
     (case map_of r (JStr ''args'') of
        None \<Rightarrow> True
      | Some a \<Rightarrow>
          is_dict a \<and> dict_or_absent (entry a ''profile'') \<and>
          (if absent_or_null (profile_entry r ''streams'')
           then dict_or_absent (entry a ''strategy'') else True))"


text \<open>
  A record whose \<open>profile.measured_rates\<close> is \<open>null\<close>, and the record of scenario C:
  no \<open>profile.streams\<close>, and \<open>args.strategy.streams == 5\<close>.
\<close>

definition null_rates_record :: pydict where
  "null_rates_record =
     [(JStr ''args'', JObj [(''profile'', JObj [(''measured_rates'', JNull)])])]"

definition scenario_c_record :: pydict where
  "scenario_c_record =
     [(JStr ''type_'', JStr ''x''),
      (JStr ''args'', JObj [(''strategy'', JObj [(''streams'', JInt 5)])])]"

text \<open>
  What the loop of \<open>uniq\<close> keeps of a sequence, given the keys seen so far: the elements
  whose key is new.
\<close>

fun dedup :: "(rat \<Rightarrow> string) \<Rightarrow> ukey set \<Rightarrow> json list \<Rightarrow> json list" where
  "dedup fr seen [] = []"
| "dedup fr seen (x # xs) =
     (if uniq_key fr x \<in> seen then dedup fr seen xs
      else x # dedup fr (insert (uniq_key fr x) seen) xs)"













section \<open>Properties of the record extractor\<close>

lemma extract_record_benchmarks:
  "map_of kvs ''benchmarks'' = Some (JList (x # xs)) \<Longrightarrow> extract_record (JObj kvs) = x"
  by (simp add: extract_record_def)

lemma extract_record_type:
  assumes "\<not> (\<exists>x xs. map_of kvs ''benchmarks'' = Some (JList (x # xs)))"
    and "map_of kvs ''type_'' = Some t"
  shows "extract_record (JObj kvs) = JObj kvs"
proof (cases "map_of kvs ''benchmarks''")
  case None
  then show ?thesis using assms(2) by (simp add: extract_record_def)
next
  case (Some bs)
  have "\<not> (is_list bs \<and> truthy bs)"
    using assms(1) Some by (cases bs; simp) (metis list.exhaust)
  then show ?thesis
    using Some assms(2) by (auto simp add: extract_record_def)
qed

lemma extract_record_none:
  assumes "\<not> (\<exists>x xs. map_of kvs ''benchmarks'' = Some (JList (x # xs)))"
    and "map_of kvs ''type_'' = None"
  shows "extract_record (JObj kvs) = JNull"
proof (cases "map_of kvs ''benchmarks''")
  case None
  then show ?thesis using assms(2) by (simp add: extract_record_def)
next
  case (Some bs)
  have "\<not> (is_list bs \<and> truthy bs)"
    using assms(1) Some by (cases bs; simp) (metis list.exhaust)
  then show ?thesis
    using Some assms(2) by (auto simp add: extract_record_def)
qed

text \<open>
  C3. The extractor decides by a fixed priority order, the first match winning:
  (a) an object with a non-empty list under \<open>benchmarks\<close> yields the first element of that
  list; (b) otherwise an object with the key \<open>type_\<close> yields the object itself;
  (c) otherwise a non-empty list yields its first element; (d) every other value, an empty
  list and an object with neither key included, yields \<open>None\<close>.
\<close>

theorem extract_record_priority:
  "extract_record data =
     (case data of
        JObj kvs \<Rightarrow>
          (case map_of kvs ''benchmarks'' of
             Some (JList (x # xs)) \<Rightarrow> x
           | _ \<Rightarrow> (if map_of kvs ''type_'' \<noteq> None then JObj kvs else JNull))
      | JList (x # xs) \<Rightarrow> x
      | _ \<Rightarrow> JNull)"
proof (cases data)
  case (JObj kvs)
  show ?thesis
  proof (cases "\<exists>x xs. map_of kvs ''benchmarks'' = Some (JList (x # xs))")
    case True
    then show ?thesis using JObj extract_record_benchmarks by auto
  next
    case False
    show ?thesis
    proof (cases "map_of kvs ''type_''")
      case None
      with False JObj extract_record_none[of kvs] show ?thesis
        by (auto split: option.splits json.splits list.splits)
    next
      case (Some t)
      with False JObj extract_record_type[of kvs t] show ?thesis
        by (auto split: option.splits json.splits list.splits)
    qed
  qed
next
  case (JList xs)
  then show ?thesis by (cases xs) (simp_all add: extract_record_def)
qed (simp_all add: extract_record_def)

section \<open>Records as association lists with string keys\<close>

lemma py_eq_JStr [simp]: "py_eq x (JStr s) = (x = JStr s)"
  by (cases x) auto

lemma dict_get_map_of:
  "dict_get d (JStr s) dflt = (case map_of d (JStr s) of Some v \<Rightarrow> v | None \<Rightarrow> dflt)"
  by (induction d) auto


lemma dict_set_update: "dict_set d (JStr s) v = AList.update (JStr s) v d"
  by (induction d) auto

lemma example_merge:
  "merge_benchmark_files no_repr ''d'' example_listing =
     ([SkipNoBenchmark ''d/a.json''], Inr example_document)"
  by code_simp

section \<open>The number of output records\<close>

lemma load_files_length:
  "load_files files out bs = (out', Inr bs') \<Longrightarrow>
     length bs' = length bs + length (filter yields_record files)"
proof (induction files arbitrary: out bs)
  case Nil
  then show ?case by simp
next
  case (Cons f files)
  obtain fp content where f: "f = (fp, content)" by (cases f)
  obtain warn b where lb: "load_first_benchmark fp content = (warn, b)"
    by (cases "load_first_benchmark fp content")
  show ?case
  proof (cases "b = JNull")
    case True
    with Cons f lb show ?thesis by (simp add: yields_record_def)
  next
    case False
    with Cons.prems f lb obtain d where d: "dict_ctor b = Inr d"
      by (auto split: sum.splits)
    with Cons f lb False show ?thesis
      by (simp add: yields_record_def)
  qed
qed

lemma attach_all_length:
  "attach_all cp dir bs = Inr bs' \<Longrightarrow> length bs' = length bs"
  by (induction bs arbitrary: bs') (auto split: sum.splits)

text \<open>
  C5. When a run succeeds, the \<open>benchmarks\<close> list of its document has as many records as
  there are input files that yielded a record; a file that fails to parse or yields no
  record adds nothing.
\<close>

theorem output_count:
  assumes "merge_benchmark_files fr input_dir listing = (out, Inr doc)"
  shows "length (benchmarks doc) = length (filter yields_record listing)"
proof -
  obtain out1 r where lf: "load_files (sort_key fst listing) [] [] = (out1, r)"
    by (cases "load_files (sort_key fst listing) [] []")
  from assms lf obtain bs cp where r: "r = Inr bs"
    and at: "attach_all cp input_dir bs = Inr (benchmarks doc)"
    by (auto simp: merge_benchmark_files_def Let_def split: sum.splits if_splits)
  have "length bs = length (filter yields_record (sort_key fst listing))"
    using load_files_length[OF lf[unfolded r]] by simp
  also have "\<dots> = length (filter yields_record listing)"
    by (simp add: filter_sort)
  finally show ?thesis using attach_all_length[OF at] by simp
qed

theorem output_count_witness:
  "merge_benchmark_files no_repr ''d'' example_listing =
     ([SkipNoBenchmark ''d/a.json''], Inr example_document) \<and>
   length (benchmarks example_document) = length (filter yields_record example_listing) \<and>
   length (benchmarks example_document) = 1 \<and> length example_listing = 2"
  using example_merge output_count[OF example_merge]
  by (simp add: example_document_def example_listing_def)

section \<open>The profile of the output records\<close>

lemma attach_profile_profile:
  assumes "attach_profile cp dir b = Inr b'"
  shows "record_profile b' = JObj cp"
proof -
  obtain b_copy b_args where sd: "setdefault b (JStr ''args'') (JObj []) = (b_copy, b_args)"
    by (cases "setdefault b (JStr ''args'') (JObj [])")
  with assms obtain kvs where a: "b_args = JObj kvs"
    and b': "b' = dict_set (dict_set b_copy (JStr ''args'')
                   (JObj (AList.update ''profile'' (JObj cp) kvs)))
                 (JStr ''__combined_from'') (JStr (basename (rstrip_slash dir)))"
    by (cases b_args) (auto simp: attach_profile_def)
  show ?thesis
    unfolding b' record_profile_def
    by (simp add: dict_get_map_of dict_set_update update_conv')
qed

lemma attach_all_profile:
  "attach_all cp dir bs = Inr bs' \<Longrightarrow> r \<in> set bs' \<Longrightarrow> record_profile r = JObj cp"
proof (induction bs arbitrary: bs')
  case Nil
  then show ?case by simp
next
  case (Cons b bs)
  then show ?case
    by (auto split: sum.splits dest: attach_profile_profile)
qed

text \<open>
  C4. In the document of a successful run, \<open>args.profile\<close> of every record is the combined
  profile that the run synthesized; so the profiles of any two records are equal.
\<close>

theorem output_profiles_equal:
  assumes "merge_benchmark_files fr input_dir listing = (out, Inr doc)"
  shows "\<exists>cp. synthesized_profile fr listing = Some cp \<and>
           (\<forall>r \<in> set (benchmarks doc). record_profile r = JObj cp) \<and>
           (\<forall>r \<in> set (benchmarks doc). \<forall>r' \<in> set (benchmarks doc).
              record_profile r = record_profile r')"
proof -
  obtain out1 r where lf: "load_files (sort_key fst listing) [] [] = (out1, r)"
    by (cases "load_files (sort_key fst listing) [] []")
  from assms lf obtain bs cp where r: "r = Inr bs" and ag: "aggregate fr bs = Inr cp"
    and at: "attach_all cp input_dir bs = Inr (benchmarks doc)"
    by (auto simp: merge_benchmark_files_def Let_def split: sum.splits if_splits)
  have "synthesized_profile fr listing = Some cp"
    using lf r ag by (simp add: synthesized_profile_def)
  then show ?thesis using attach_all_profile[OF at] by auto
qed

lemma scenario_a_merge:
  "merge_benchmark_files no_repr ''d'' scenario_a_listing = ([], Inr scenario_a_document)"
  by code_simp

lemma scenario_a_synthesized:
  "synthesized_profile no_repr scenario_a_listing = Some scenario_a_profile"
  by code_simp

theorem output_profiles_equal_witness:
  "merge_benchmark_files no_repr ''d'' scenario_a_listing = ([], Inr scenario_a_document) \<and>
   synthesized_profile no_repr scenario_a_listing = Some scenario_a_profile \<and>
   map record_profile (benchmarks scenario_a_document) =
     [JObj scenario_a_profile, JObj scenario_a_profile]"
proof -
  from output_profiles_equal[OF scenario_a_merge] obtain cp where
    cp: "synthesized_profile no_repr scenario_a_listing = Some cp"
    and all: "\<forall>r \<in> set (benchmarks scenario_a_document). record_profile r = JObj cp"
    by blast
  from cp have "cp = scenario_a_profile" by (simp add: scenario_a_synthesized)
  with all have "map record_profile (benchmarks scenario_a_document) =
     [JObj scenario_a_profile, JObj scenario_a_profile]"
    by (simp add: scenario_a_document_def)
  then show ?thesis using scenario_a_merge scenario_a_synthesized by simp
qed

section \<open>A run that finds no record\<close>

lemma load_files_none:
  "list_all (\<lambda>f. \<not> yields_record f) files \<Longrightarrow> \<exists>out'. load_files files out bs = (out', Inr bs)"
proof (induction files arbitrary: out)
  case Nil
  then show ?case by simp
next
  case (Cons f files)
  obtain fp content where f: "f = (fp, content)" by (cases f)
  obtain warn b where lb: "load_first_benchmark fp content = (warn, b)"
    by (cases "load_first_benchmark fp content")
  from Cons.prems f lb have "b = JNull" by (simp add: yields_record_def)
  with Cons f lb show ?case by simp
qed

lemma written_only_on_success:
  "written (main fr is_dir listing input_dir output) \<noteq> None \<longleftrightarrow>
     ending (main fr is_dir listing input_dir output) = Returned"
  by (auto simp: main_def split: prod.splits sum.splits)

text \<open>
  C8. When no file of the input directory yields a record, the run ends with the
  \<open>SystemExit\<close> of line 56, whose message names the directory; the exit status is not
  zero and no output file is written.
\<close>

theorem no_records_found:
  assumes "list_all (\<lambda>f. \<not> yields_record f) listing"
  shows "ending (main fr True listing input_dir output) =
           Raised (SystemExit (''No benchmark entries found in '' @ input_dir)) \<and>
         exit_status (ending (main fr True listing input_dir output)) \<noteq> 0 \<and>
         written (main fr True listing input_dir output) = None"
proof -
  have "list_all (\<lambda>f. \<not> yields_record f) (sort_key fst listing)"
    using assms by (simp add: list_all_iff)
  from load_files_none[OF this] obtain out' where
    "load_files (sort_key fst listing) [] [] = (out', Inr [])" by blast
  then show ?thesis
    by (simp add: main_def merge_benchmark_files_def exit_status_def)
qed

theorem no_records_found_witness:
  "list_all (\<lambda>f. \<not> yields_record f) scenario_b_listing \<and>
   ending (main no_repr True scenario_b_listing ''d'' ''out.json'') =
     Raised (SystemExit ''No benchmark entries found in d'') \<and>
   written (main no_repr True scenario_b_listing ''d'' ''out.json'') = None"
proof -
  have h: "list_all (\<lambda>f. \<not> yields_record f) scenario_b_listing"
    by (simp add: scenario_b_listing_def yields_record_def load_first_benchmark_def
        extract_record_def)
  show ?thesis
    using h no_records_found[OF h, of no_repr "''d''" "''out.json''"] by simp
qed

section \<open>A file whose record is not a dict\<close>

text \<open>
  C9. Every per-file error is recovered by skipping the file, and no content of a single
  file aborts the run. The code does not do that for the directory \<open>non_dict_listing\<close>:
  the extractor returns \<open>5\<close> for \<open>a.json\<close>, \<open>dict(5)\<close> on line 51 raises \<open>TypeError\<close>, and
  the run ends there, with no skip line printed and no file written, although \<open>b.json\<close>
  alone gives a document.
\<close>

theorem non_dict_record_aborts:
  "extract_record (JList [JInt 5]) = JInt 5 \<and>
   main no_repr True non_dict_listing ''d'' ''out.json'' =
     \<lparr> ending = Raised TypeError, printed = [], written = None \<rparr> \<and>
   ending (main no_repr True (tl non_dict_listing) ''d'' ''out.json'') = Returned"
  by code_simp

section \<open>The running lists of the aggregator\<close>

lemma extend_some: "extend_or_append acc x = acc @ contribution (Some x)"
  by (cases "Some x" rule: contribution.cases) (simp_all add: extend_or_append_def)

lemma attr_get_not_dict: "\<not> is_dict x \<Longrightarrow> attr_get x k dflt = Inl AttributeError"
  by (cases x) auto

lemma collect_one_no_args:
  assumes "map_of b (JStr ''args'') = None"
  shows "collect_one acc b = Inr acc" "well_shaped b" "field_value f b = None"
  using assms
  by (simp_all add: collect_one_def well_shaped_def field_value_def profile_entry_def
      strategy_entry_def dict_get_map_of extend_or_append_def)

lemma collect_one_char:
  "collect_one acc b =
     (if well_shaped b
      then Inr \<lparr> measured_rates = measured_rates acc @ contribution (field_value ''measured_rates'' b),
                 measured_concurrencies =
                   measured_concurrencies acc @ contribution (field_value ''measured_concurrencies'' b),
                 streams = streams acc @ contribution (field_value ''streams'' b),
                 strategy_types = strategy_types acc @ contribution (field_value ''strategy_types'' b) \<rparr>
      else Inl AttributeError)"
proof (cases "map_of b (JStr ''args'')")
  case None
  then show ?thesis by (simp add: collect_one_no_args)
next
  case (Some a)
  show ?thesis
  proof (cases a)
    case (JObj kvs)
    show ?thesis
    proof (cases "map_of kvs ''profile''")
      case None
      show ?thesis
        using Some JObj None
        by (cases "map_of kvs ''strategy''"; cases "the (map_of kvs ''strategy'')")
           (auto simp: collect_one_def well_shaped_def field_value_def profile_entry_def
              strategy_entry_def dict_get_map_of extend_some absent_or_null_def dict_or_absent_def
              split: option.splits)
    next
      case (Some p)
      note p = Some
      show ?thesis
      proof (cases p)
        case (JObj pk)
        show ?thesis
          using \<open>map_of b (JStr ''args'') = Some a\<close> \<open>a = JObj kvs\<close> p JObj
          by (cases "map_of kvs ''strategy''"; cases "the (map_of kvs ''strategy'')")
             (auto simp: collect_one_def well_shaped_def field_value_def profile_entry_def
                strategy_entry_def dict_get_map_of extend_some absent_or_null_def dict_or_absent_def
                split: option.splits)
      qed (use \<open>map_of b (JStr ''args'') = Some a\<close> \<open>a = JObj kvs\<close> p in
            \<open>simp_all add: collect_one_def well_shaped_def dict_get_map_of dict_or_absent_def\<close>)
    qed
  qed (use Some in \<open>simp_all add: collect_one_def well_shaped_def dict_get_map_of\<close>)
qed


lemma collect_char:
  "collect acc rs =
     (if list_all well_shaped rs
      then Inr \<lparr> measured_rates = measured_rates acc @ running_list ''measured_rates'' rs,
                 measured_concurrencies =
                   measured_concurrencies acc @ running_list ''measured_concurrencies'' rs,
                 streams = streams acc @ running_list ''streams'' rs,
                 strategy_types = strategy_types acc @ running_list ''strategy_types'' rs \<rparr>
      else Inl AttributeError)"
proof (induction rs arbitrary: acc)
  case Nil
  show ?case by (simp add: running_list_def)
next
  case (Cons r rs)
  show ?case
    by (simp add: collect_one_char Cons.IH running_list_def)
qed

text \<open>
  C1, as it is worded, fails on a field that is present with the value \<open>null\<close>: the
  field is present and not a list, and the code appends nothing.
\<close>

theorem null_field_counterexample:
  "collect empty_sweep [null_rates_record] = Inr empty_sweep \<and>
   claimed_sweep [null_rates_record] = empty_sweep \<lparr> measured_rates := [JNull] \<rparr> \<and>
   collect empty_sweep [null_rates_record] \<noteq> Inr (claimed_sweep [null_rates_record])"
  by code_simp

text \<open>
  C1, amended. For every list of stored records on which the aggregator does not raise,
  each of the four running lists is built by scanning the records in order and reading
  the field from \<open>record.args.profile\<close>: a list contributes its elements in order, a value
  that is neither \<open>null\<close> nor a list contributes itself, an absent or \<open>null\<close> field
  contributes nothing; for \<open>streams\<close>, when \<open>profile.streams\<close> is absent or \<open>null\<close>, the
  value of \<open>record.args.strategy.streams\<close> is used in the same way. The aggregator raises
  \<open>AttributeError\<close> exactly when \<open>args\<close>, \<open>args.profile\<close> or a consulted \<open>args.strategy\<close>
  of some record is present and not a mapping.
\<close>

theorem aggregator_running_lists:
  "collect empty_sweep rs =
     (if list_all well_shaped rs then Inr (running_sweep rs) else Inl AttributeError)"
  by (simp add: collect_char empty_sweep_def running_sweep_def)

theorem aggregator_running_lists_witness:
  "list_all well_shaped [null_rates_record, scenario_c_record] \<and>
   collect empty_sweep [null_rates_record, scenario_c_record] =
     Inr (empty_sweep \<lparr> streams := [JInt 5] \<rparr>) \<and>
   running_list ''streams'' [scenario_c_record] = [JInt 5]"
proof -
  have w: "list_all well_shaped [null_rates_record, scenario_c_record]"
    by code_simp
  have r: "running_sweep [null_rates_record, scenario_c_record] =
      empty_sweep \<lparr> streams := [JInt 5] \<rparr>"
    by code_simp
  have s: "running_list ''streams'' [scenario_c_record] = [JInt 5]"
    by code_simp
  show ?thesis
    using aggregator_running_lists[of "[null_rates_record, scenario_c_record]"] w r s
    by simp
qed

section \<open>Deduplication as a filter on first occurrences\<close>

lemma uniq_loop_dedup: "uniq_loop fr seen out xs = out @ dedup fr seen xs"
  by (induction xs arbitrary: seen out) (simp_all add: Let_def)

lemma uniq_dedup: "uniq fr xs = dedup fr {} xs"
  by (simp add: uniq_def uniq_loop_dedup)


lemma dedup_key_set: "uniq_key fr ` set (dedup fr seen xs) = uniq_key fr ` set xs - seen"
  by (induction xs arbitrary: seen) auto

lemma dedup_distinct: "distinct (map (uniq_key fr) (dedup fr seen xs))"
proof (induction xs arbitrary: seen)
  case Nil
  show ?case by simp
next
  case (Cons x xs)
  have "uniq_key fr x \<notin> uniq_key fr ` set (dedup fr (insert (uniq_key fr x) seen) xs)"
    by (simp add: dedup_key_set)
  with Cons show ?case by simp
qed

lemma dedup_id:
  "distinct (map (uniq_key fr) xs) \<Longrightarrow> uniq_key fr ` set xs \<inter> seen = {} \<Longrightarrow> dedup fr seen xs = xs"
  by (induction xs arbitrary: seen) auto




lemma uniq_idem: "uniq fr (uniq fr xs) = uniq fr xs"
  by (simp add: uniq_dedup dedup_id dedup_distinct)

section \<open>Equality and order of Python values\<close>






section \<open>Sorting by insertion\<close>

lemma set_insort_lt [simp]: "set (insort_lt x ys) = insert x (set ys)"
  by (induction ys) auto

lemma set_sort_lt [simp]: "set (sort_lt xs) = set xs"
  by (induction xs) (simp_all add: sort_lt_def)



lemma mset_insort_lt [simp]: "mset (insort_lt x ys) = add_mset x (mset ys)"
  by (induction ys) auto

lemma mset_sort_lt [simp]: "mset (sort_lt xs) = mset xs"
  by (induction xs) (simp_all add: sort_lt_def)








lemma sorted_or_same_set [simp]: "set (sorted_or_same xs) = set xs"
  by (simp add: sorted_or_same_def py_sorted_def)

lemma sorted_or_same_mset [simp]: "mset (sorted_or_same xs) = mset xs"
  by (simp add: sorted_or_same_def py_sorted_def)


section \<open>Aggregating the output again\<close>



lemma sorted_or_same_Nil_iff [simp]: "sorted_or_same xs = [] \<longleftrightarrow> xs = []"
  by (metis sorted_or_same_set set_empty)













lemma running_list_Nil_iff: "bs = [] \<Longrightarrow> running_list f bs = []"
  by (simp add: running_list_def)





section \<open>The deduplicator keeps first occurrences\<close>









section \<open>The order of Python values on comparable elements\<close>








lemma py_lt_num_left: "py_lt x y \<noteq> None \<Longrightarrow> num_val x = Some r \<Longrightarrow> \<exists>a. num_val y = Some a"
  by (cases y; cases x) auto



lemma py_eq_not_lt_aux:
  "py_eq x y \<longrightarrow> py_lt x y \<noteq> Some True"
  "list_all2 py_eq xs ys \<longrightarrow> lt_list xs ys \<noteq> Some True"
proof (induction x y and xs ys rule: py_lt_lt_list.induct)
  case (1 xs y)
  then show ?case by (cases y) auto
next
  case (2 s y)
  then show ?case by (cases y) auto
next
  case (3 b y)
  then show ?case by (cases y) (auto split: if_splits)
next
  case (4 i y)
  then show ?case by (cases y) (auto split: if_splits)
next
  case (5 q y)
  then show ?case by (cases y) (auto split: if_splits)
qed auto

lemma py_eq_not_lt: "py_eq x y \<Longrightarrow> py_lt x y \<noteq> Some True"
  using py_eq_not_lt_aux(1) by blast




lemma py_eq_list_right: "py_eq y (JList zs) \<Longrightarrow> \<exists>ys. y = JList ys"
  by (cases y) auto








section \<open>The best-effort sort of the streams\<close>





end
